theory Spec2Isabelle
  imports Main "HOL-Library.AList"
begin

section \<open>Sample-metadata retrieval: a shallow embedding of \<open>metadata_util.py\<close>\<close>

text \<open>
  Python strings are modelled as \<open>string\<close>, Python ints as \<open>int\<close>, a Python dict as an
  association list that is updated with \<open>AList.update\<close> (a new key goes to the end, an
  existing key keeps its place, as in a Python dict) and read with \<open>map_of\<close>.
  Every exception the module can raise is a value of \<open>py_error\<close>, and a function that can
  raise returns \<open>py_error + 'a\<close>.
\<close>

subsection \<open>Constants of the module\<close>

definition TEMPLATES_TO_IGNORE :: "int set" where
  "TEMPLATES_TO_IGNORE = {10001}"

definition EBI_REMOVE :: "string list" where
  "EBI_REMOVE = [''ABOUT_YOURSELF_TEXT'', ''ANTIBIOTIC_CONDITION'',
                 ''ANTIBIOTIC_MED'',
                 ''BIRTH_MONTH'', ''CAT_CONTACT'', ''CAT_LOCATION'',
                 ''CONDITIONS_MEDICATION'', ''DIET_RESTRICTIONS_LIST'',
                 ''DOG_CONTACT'',
                 ''DOG_LOCATION'', ''GENDER'', ''MEDICATION_LIST'',
                 ''OTHER_CONDITIONS_LIST'', ''PREGNANT_DUE_DATE'',
                 ''RACE_OTHER'',
                 ''RELATIONSHIPS_WITH_OTHERS_IN_STUDY'',
                 ''SPECIAL_RESTRICTIONS'',
                 ''SUPPLEMENTS'', ''TRAVEL_LOCATIONS_LIST'', ''ZIP_CODE'',
                 ''WILLING_TO_BE_CONTACTED'', ''pets_other_freetext'']"

subsection \<open>String helpers of the Python library\<close>

text \<open>\<open>s.replace(a, b)\<close> for one-character \<open>a\<close> and \<open>b\<close>.\<close>

definition replace_char :: "char \<Rightarrow> char \<Rightarrow> string \<Rightarrow> string" where
  "replace_char a b s = map (\<lambda>c. if c = a then b else c) s"

text \<open>The character class \<open>[0-9a-zA-Z_]\<close> of the regular expression in \<open>_build_col_name\<close>.\<close>

definition word_char :: "char \<Rightarrow> bool" where
  "word_char c \<longleftrightarrow>
     c \<in> set ''0123456789abcdefghijklmnopqrstuvwxyzABCDEFGHIJKLMNOPQRSTUVWXYZ_''"

text \<open>
  \<open>re.sub('[^0-9a-zA-Z_]+', '', s)\<close>: scanning from the left, every maximal run of
  characters outside the class is matched and replaced by the empty string.
\<close>

function re_sub_nonword :: "string \<Rightarrow> string" where
  "re_sub_nonword [] = []"
| "re_sub_nonword (c # cs) =
     (if word_char c then c # re_sub_nonword cs
      else re_sub_nonword (dropWhile (\<lambda>d. \<not> word_char d) cs))"
  by pat_completeness auto
termination
  by (relation "measure length") (auto simp: length_dropWhile_le less_Suc_eq_le)

text \<open>\<open>s.strip(chars)\<close>: leading and trailing characters of the set are removed.\<close>

definition py_strip :: "string \<Rightarrow> string \<Rightarrow> string" where
  "py_strip chars s =
     rev (dropWhile (\<lambda>c. c \<in> set chars) (rev (dropWhile (\<lambda>c. c \<in> set chars) s)))"

text \<open>\<open>s.lower()\<close> on the ASCII letters; every other character is left as it is.\<close>

definition lower_char :: "char \<Rightarrow> char" where
  "lower_char c =
     (case map_of (zip ''ABCDEFGHIJKLMNOPQRSTUVWXYZ'' ''abcdefghijklmnopqrstuvwxyz'') c of
        Some d \<Rightarrow> d
      | None \<Rightarrow> c)"

definition lower :: "string \<Rightarrow> string" where
  "lower s = map lower_char s"

text \<open>\<open>s.startswith(p)\<close>.\<close>

definition startswith :: "string \<Rightarrow> string \<Rightarrow> bool" where
  "startswith s p \<longleftrightarrow> take (length p) s = p"

text \<open>\<open>str(n)\<close> for an integer: its decimal digits, with a minus sign when negative.\<close>

definition digit_char :: "nat \<Rightarrow> char" where
  "digit_char d = ''0123456789'' ! (d mod 10)"

function str_nat :: "nat \<Rightarrow> string" where
  "str_nat n = (if n < 10 then [digit_char n] else str_nat (n div 10) @ [digit_char n])"
  by pat_completeness auto
termination
  by (relation "measure id") auto

definition str_int :: "int \<Rightarrow> string" where
  "str_int i = (if i < 0 then CHR ''-'' # str_nat (nat (- i)) else str_nat (nat i))"

subsection \<open>Canonical column names\<close>

definition build_col_name :: "string \<Rightarrow> string \<Rightarrow> string" where
  "build_col_name col_name multiselect_answer =
     (let multiselect_answer = replace_char CHR '' '' CHR ''_'' multiselect_answer;
          multiselect_answer = replace_char CHR ''-'' CHR ''_'' multiselect_answer;
          reduced = re_sub_nonword multiselect_answer
      in col_name @ ''_'' @ reduced)"

text \<open>
  The naming rule in the words of the specification: short-name, underscore, then the
  choice with spaces and hyphens turned into underscores and every character outside
  \<open>[0-9a-zA-Z_]\<close> removed.
\<close>

definition spec_col_name :: "string \<Rightarrow> string \<Rightarrow> string" where
  "spec_col_name short_name choice =
     short_name @ [CHR ''_''] @
     filter word_char
       (map (\<lambda>c. if c = CHR '' '' \<or> c = CHR ''-'' then CHR ''_'' else c) choice)"

subsection \<open>Data received from the private API\<close>

datatype py_error = AssertionError | KeyError | AttributeError | InvalidIndexError

text \<open>
  A raw answer is a free-text value or a list of selected choices. A survey submission
  names its template and maps each question id to (short-name, answer); the mapping is
  kept in the order of the dict.
\<close>

datatype answer = Text string | Choices "string list"

record survey =
  template :: int
  response :: "(string \<times> string \<times> answer) list"

text \<open>
  The sample metadata object. \<open>account_id\<close> is \<open>metadata['account']['id']\<close>, \<open>source_id\<close>
  and \<open>source_type\<close> are the fields of \<open>metadata['source']\<close>, \<open>datetime_collected\<close> and
  \<open>site\<close> those of \<open>metadata['sample']\<close>, and \<open>source_description\<close> is
  \<open>metadata['sample']['source']['description']\<close>. A JSON null is \<open>None\<close>.
\<close>

record raw_metadata =
  sample_barcode :: string
  host_subject_id :: "string option"
  account_id :: string
  source_id :: string
  source_type :: string
  datetime_collected :: "string option"
  site :: string
  source_description :: string
  survey_answers :: "survey list"

text \<open>
  A field of a survey template, and a template as the list of the field lists of its
  groups (\<open>template['survey_template_text']['groups'][i]['fields']\<close>).
\<close>

record field =
  field_multi :: bool
  field_shortname :: string
  field_values :: "string list"
  field_id :: string

type_synonym survey_template = "field list list"

type_synonym template_ids = "string \<times> string \<times> int"

text \<open>
  The entries of the error report:
  \<open>{"barcode": [...], "error": e}\<close>, \<open>{"barcode": b, "error": e}\<close>,
  \<open>{template_id: {"ids": ids, "error": e}, ...}\<close> and \<open>{"error": e}\<close>.
\<close>

datatype report_entry =
    BarcodesError "string list" string
  | BarcodeError string string
  | TemplateErrors "(int \<times> template_ids \<times> string) list"
  | ErrorOnly string

text \<open>
  What the module takes from outside: the two kinds of \<open>APIRequest.get\<close> requests
  (each answers with a status and a payload), the table \<open>HUMAN_SITE_INVARIANTS\<close> of
  \<open>metadata_constants\<close>, and the order in which Python enumerates a set, given the
  elements as they were put in. Nothing is known of that order but \<open>set_order_ok\<close>.
\<close>

record env =
  api_sample_surveys :: "string \<Rightarrow> int \<times> raw_metadata"
  api_survey_template :: "string \<Rightarrow> string \<Rightarrow> int \<Rightarrow> int \<times> survey_template"
  HUMAN_SITE_INVARIANTS :: "(string \<times> (string \<times> string) list) list"
  str_set_order :: "string list \<Rightarrow> string list"
  int_set_order :: "int list \<Rightarrow> int list"

definition set_order_ok :: "('a list \<Rightarrow> 'a list) \<Rightarrow> bool" where
  "set_order_ok f \<longleftrightarrow> (\<forall>xs. distinct (f xs) \<and> set (f xs) = set xs)"

definition env_ok :: "env \<Rightarrow> bool" where
  "env_ok e \<longleftrightarrow> set_order_ok (str_set_order e) \<and> set_order_ok (int_set_order e)"

subsection \<open>The pandas objects\<close>

text \<open>
  A cell is a string or null (\<open>None\<close>). A Series is its name and its labelled values in
  order. A DataFrame is its column labels and its rows, each row being its label and one
  cell for every column.
\<close>

type_synonym cell = "string option"

type_synonym series = "string \<times> (string \<times> cell) list"

record dataframe =
  columns :: "string list"
  rows :: "(string \<times> (string \<times> cell) list) list"

definition empty_frame :: dataframe where
  "empty_frame = \<lparr>columns = [], rows = []\<rparr>"

definition first_seen :: "'a list \<Rightarrow> 'a list" where
  "first_seen xs = rev (remdups (rev xs))"

text \<open>
  \<open>pd.DataFrame(list_of_series)\<close>: the columns are the union of the labels, a row has the
  value of its Series under a label and null where the Series has no such label. pandas
  refuses to align a Series in which a label occurs twice.
\<close>

definition pd_DataFrame :: "series list \<Rightarrow> py_error + dataframe" where
  "pd_DataFrame ss =
     (if list_ex (\<lambda>s. \<not> distinct (map fst (snd s))) ss then Inl InvalidIndexError
      else
        let cols = first_seen (concat (map (\<lambda>s. map fst (snd s)) ss))
        in Inr \<lparr>columns = cols,
                rows = map (\<lambda>s. (fst s,
                         map (\<lambda>c. (c, case map_of (snd s) c of None \<Rightarrow> None | Some v \<Rightarrow> v)) cols))
                       ss\<rparr>)"

text \<open>\<open>df.loc[df[column].isnull(), column] = value\<close>.\<close>

definition fill_null_column :: "string \<Rightarrow> string \<Rightarrow> dataframe \<Rightarrow> dataframe" where
  "fill_null_column column v df =
     df\<lparr>rows := map (\<lambda>r. (fst r,
             map (\<lambda>cv. if fst cv = column \<and> snd cv = None then (fst cv, Some v) else cv) (snd r)))
           (rows df)\<rparr>"

text \<open>\<open>df[column] = value\<close>: a new column is added at the end, an old one is overwritten.\<close>

definition set_column :: "string \<Rightarrow> string \<Rightarrow> dataframe \<Rightarrow> dataframe" where
  "set_column column v df =
     (if column \<in> set (columns df)
      then df\<lparr>rows := map (\<lambda>r. (fst r,
                  map (\<lambda>cv. if fst cv = column then (fst cv, Some v) else cv) (snd r)))
                (rows df)\<rparr>
      else \<lparr>columns = columns df @ [column],
            rows = map (\<lambda>r. (fst r, snd r @ [(column, Some v)])) (rows df)\<rparr>)"

text \<open>\<open>df.fillna(value, inplace=True)\<close>.\<close>

definition fillna :: "string \<Rightarrow> dataframe \<Rightarrow> dataframe" where
  "fillna v df =
     df\<lparr>rows := map (\<lambda>r. (fst r,
             map (\<lambda>cv. if snd cv = None then (fst cv, Some v) else cv) (snd r)))
           (rows df)\<rparr>"

text \<open>\<open>df.replace(old, new, inplace=True)\<close>.\<close>

definition replace_value :: "string \<Rightarrow> string \<Rightarrow> dataframe \<Rightarrow> dataframe" where
  "replace_value old new df =
     df\<lparr>rows := map (\<lambda>r. (fst r,
             map (\<lambda>cv. if snd cv = Some old then (fst cv, Some new) else cv) (snd r)))
           (rows df)\<rparr>"

text \<open>\<open>df.drop(columns=to_drop, inplace=False)\<close>, every label of \<open>to_drop\<close> being a column.\<close>

definition drop_columns :: "string list \<Rightarrow> dataframe \<Rightarrow> dataframe" where
  "drop_columns to_drop df =
     \<lparr>columns = filter (\<lambda>c. c \<notin> set to_drop) (columns df),
      rows = map (\<lambda>r. (fst r, filter (\<lambda>cv. fst cv \<notin> set to_drop) (snd r))) (rows df)\<rparr>"

text \<open>The cell of a row under a column label, when the row has that column.\<close>

definition cell_at :: "string \<times> (string \<times> cell) list \<Rightarrow> string \<Rightarrow> cell option" where
  "cell_at r c = map_of (snd r) c"

subsection \<open>\<open>drop_private_columns\<close>\<close>

definition drop_private_columns :: "dataframe \<Rightarrow> dataframe" where
  "drop_private_columns df =
     (let pm_remove = [lower c. c \<leftarrow> columns df, startswith (lower c) ''pm_''];
          remove = set pm_remove \<union> set (map lower EBI_REMOVE);
          to_drop = [c \<leftarrow> columns df. lower c \<in> remove]
      in drop_columns to_drop df)"

subsection \<open>\<open>_find_duplicates\<close>\<close>

text \<open>\<open>Counter(barcodes)\<close>: a dict from each barcode to the number of its occurrences.\<close>

definition Counter :: "string list \<Rightarrow> (string \<times> nat) list" where
  "Counter barcodes =
     foldl (\<lambda>counts b. AList.update b (case map_of counts b of None \<Rightarrow> 1 | Some n \<Rightarrow> n + 1) counts)
       [] barcodes"

text \<open>The set \<open>dups\<close> is returned as the list of its elements in the order of the set.\<close>

definition find_duplicates :: "env \<Rightarrow> string list \<Rightarrow> string list \<times> report_entry option" where
  "find_duplicates e barcodes =
     (let counts = Counter barcodes;
          dups = str_set_order e [fst bc. bc \<leftarrow> counts, snd bc > 1];
          error = (if length dups > 0
                   then Some (BarcodesError dups ''Duplicated barcodes in input'')
                   else None)
      in (dups, error))"

subsection \<open>The two requests\<close>

definition fetch_barcode_metadata :: "env \<Rightarrow> string \<Rightarrow> raw_metadata \<times> report_entry option" where
  "fetch_barcode_metadata e barcode =
     (let (status, response) = api_sample_surveys e barcode;
          errors = (if status \<noteq> 200
                    then Some (BarcodeError barcode (str_int status @ '' from api''))
                    else None)
      in (response, errors))"

definition fetch_survey_template ::
  "env \<Rightarrow> int \<Rightarrow> string \<times> string \<Rightarrow> survey_template \<times> (template_ids \<times> string) option" where
  "fetch_survey_template e template_id ids =
     (let ids = (fst ids, snd ids, template_id);
          (status, response) = api_survey_template e (fst ids) (fst (snd ids)) (snd (snd ids));
          errors = (if status \<noteq> 200 then Some (ids, str_int status @ '' from api'') else None)
      in (response, errors))"

subsection \<open>\<open>_fetch_observed_survey_templates\<close>\<close>

text \<open>The inner loop: a template seen for the first time gets the ids of this sample.\<close>

fun observed_loop ::
  "string \<times> string \<Rightarrow> int list \<Rightarrow> (int \<times> string \<times> string) list \<Rightarrow> (int \<times> string \<times> string) list" where
  "observed_loop ids [] templates = templates"
| "observed_loop ids (template_id # rest) templates =
     (if template_id \<notin> fst ` set templates
      then observed_loop ids rest (AList.update template_id ids templates)
      else observed_loop ids rest templates)"

fun templates_loop ::
  "env \<Rightarrow> raw_metadata list \<Rightarrow> (int \<times> string \<times> string) list \<Rightarrow> (int \<times> string \<times> string) list" where
  "templates_loop e [] templates = templates"
| "templates_loop e (bc_md # rest) templates =
     (let observed_templates =
            int_set_order e [template s. s \<leftarrow> survey_answers bc_md,
                                        template s \<notin> TEMPLATES_TO_IGNORE]
      in templates_loop e rest
           (observed_loop (account_id bc_md, source_id bc_md) observed_templates templates))"

fun surveys_loop ::
  "env \<Rightarrow> (int \<times> string \<times> string) list \<Rightarrow>
   (int \<times> survey_template) list \<Rightarrow> (int \<times> template_ids \<times> string) list \<Rightarrow>
   (int \<times> survey_template) list \<times> (int \<times> template_ids \<times> string) list" where
  "surveys_loop e [] surveys errors = (surveys, errors)"
| "surveys_loop e ((template_id, ids) # rest) surveys errors =
     (case fetch_survey_template e template_id ids of
        (survey, Some error) \<Rightarrow>
          surveys_loop e rest surveys (AList.update template_id error errors)
      | (survey, None) \<Rightarrow>
          surveys_loop e rest (AList.update template_id survey surveys) errors)"

definition fetch_observed_survey_templates ::
  "env \<Rightarrow> raw_metadata list \<Rightarrow>
   (int \<times> survey_template) list \<times> (int \<times> template_ids \<times> string) list option" where
  "fetch_observed_survey_templates e sample_metadata =
     (let templates = templates_loop e sample_metadata [];
          (surveys, errors) = surveys_loop e templates [] []
      in (surveys, if errors \<noteq> [] then Some errors else None))"

subsection \<open>\<open>_construct_multiselect_map\<close>\<close>

type_synonym multiselect_map = "((int \<times> string) \<times> (string \<times> string) list) list"

definition choices_loop :: "string \<Rightarrow> string list \<Rightarrow> (string \<times> string) list" where
  "choices_loop base choices =
     foldl (\<lambda>multi_values choice. AList.update choice (build_col_name base choice) multi_values)
       [] choices"

fun fields_loop :: "int \<Rightarrow> field list \<Rightarrow> multiselect_map \<Rightarrow> multiselect_map" where
  "fields_loop template_id [] result = result"
| "fields_loop template_id (f # fs) result =
     (if \<not> field_multi f then fields_loop template_id fs result
      else fields_loop template_id fs
             (AList.update (template_id, field_id f)
                (choices_loop (field_shortname f) (field_values f)) result))"

fun groups_loop :: "int \<Rightarrow> field list list \<Rightarrow> multiselect_map \<Rightarrow> multiselect_map" where
  "groups_loop template_id [] result = result"
| "groups_loop template_id (g # gs) result =
     groups_loop template_id gs (fields_loop template_id g result)"

fun construct_loop :: "(int \<times> survey_template) list \<Rightarrow> multiselect_map \<Rightarrow> multiselect_map" where
  "construct_loop [] result = result"
| "construct_loop ((template_id, t) # rest) result =
     construct_loop rest (groups_loop template_id t result)"

definition construct_multiselect_map :: "(int \<times> survey_template) list \<Rightarrow> multiselect_map" where
  "construct_multiselect_map survey_templates = construct_loop survey_templates []"

subsection \<open>\<open>_to_pandas_series\<close>\<close>

text \<open>The loop over the selections of one multiselect answer.\<close>

fun selection_loop ::
  "(string \<times> string) list \<Rightarrow> string list \<Rightarrow> (string \<times> cell) list \<Rightarrow>
   py_error + (string \<times> cell) list" where
  "selection_loop specific_shortnames [] acc = Inr acc"
| "selection_loop specific_shortnames (selection # rest) acc =
     (case map_of specific_shortnames selection of
        None \<Rightarrow> Inl KeyError
      | Some specific_shortname \<Rightarrow>
          selection_loop specific_shortnames rest (acc @ [(specific_shortname, Some ''true'')]))"

text \<open>
  The loop over the questions of one submission. A free-text answer of a multiselect
  question fails the assertion; a list where free text is expected has no \<open>strip\<close>.
  The characters stripped from free text are the two brackets and the double quote.
\<close>

fun response_loop ::
  "multiselect_map \<Rightarrow> int \<Rightarrow> (string \<times> string \<times> answer) list \<Rightarrow> (string \<times> cell) list \<Rightarrow>
   py_error + (string \<times> cell) list" where
  "response_loop multiselect_map t [] acc = Inr acc"
| "response_loop multiselect_map t ((qid, shortname, a) # rest) acc =
     (case map_of multiselect_map (t, qid) of
        Some specific_shortnames \<Rightarrow>
          (case a of
             Text s \<Rightarrow> Inl AssertionError
           | Choices selections \<Rightarrow>
               (case selection_loop specific_shortnames selections acc of
                  Inl err \<Rightarrow> Inl err
                | Inr acc' \<Rightarrow> response_loop multiselect_map t rest acc'))
      | None \<Rightarrow>
          (case a of
             Choices selections \<Rightarrow> Inl AttributeError
           | Text s \<Rightarrow>
               response_loop multiselect_map t rest
                 (acc @ [(shortname, Some (py_strip [CHR ''['', CHR '']'', CHR 0x22] s))])))"

text \<open>The loop over the submissions, with the set \<open>collected\<close> of the templates seen.\<close>

fun survey_loop ::
  "multiselect_map \<Rightarrow> survey list \<Rightarrow> int set \<Rightarrow> (string \<times> cell) list \<Rightarrow>
   py_error + (string \<times> cell) list" where
  "survey_loop multiselect_map [] collected acc = Inr acc"
| "survey_loop multiselect_map (s # rest) collected acc =
     (if template s \<in> collected then survey_loop multiselect_map rest collected acc
      else
        (case response_loop multiselect_map (template s) (response s) acc of
           Inl err \<Rightarrow> Inl err
         | Inr acc' \<Rightarrow>
             survey_loop multiselect_map rest (insert (template s) collected) acc'))"

definition to_pandas_series :: "env \<Rightarrow> raw_metadata \<Rightarrow> multiselect_map \<Rightarrow> py_error + series" where
  "to_pandas_series e metadata multiselect_map =
     (case (if source_type metadata = ''human''
            then (case map_of (HUMAN_SITE_INVARIANTS e) (site metadata) of
                    None \<Rightarrow> Inl KeyError
                  | Some invariants \<Rightarrow> Inr invariants)
            else Inr []) of
        Inl err \<Rightarrow> Inl err
      | Inr sample_invariants \<Rightarrow>
          (case survey_loop multiselect_map (survey_answers metadata) {}
                  [(''HOST_SUBJECT_ID'', host_subject_id metadata),
                   (''COLLECTION_TIMESTAMP'', datetime_collected metadata)] of
             Inl err \<Rightarrow> Inl err
           | Inr items \<Rightarrow>
               Inr (sample_barcode metadata,
                    items @ map (\<lambda>vv. (fst vv, Some (snd vv))) sample_invariants)))"

subsection \<open>\<open>_to_pandas_dataframe\<close>\<close>

fun series_loop :: "env \<Rightarrow> raw_metadata list \<Rightarrow> multiselect_map \<Rightarrow> py_error + series list" where
  "series_loop e [] multiselect_map = Inr []"
| "series_loop e (metadata # rest) multiselect_map =
     (case to_pandas_series e metadata multiselect_map of
        Inl err \<Rightarrow> Inl err
      | Inr as_series \<Rightarrow>
          (case series_loop e rest multiselect_map of
             Inl err \<Rightarrow> Inl err
           | Inr transformed \<Rightarrow> Inr (as_series # transformed)))"

definition all_multiselect_columns :: "multiselect_map \<Rightarrow> string list" where
  "all_multiselect_columns multiselect_map = concat (map (\<lambda>ms. map snd (snd ms)) multiselect_map)"

definition to_pandas_dataframe ::
  "env \<Rightarrow> raw_metadata list \<Rightarrow> (int \<times> survey_template) list \<Rightarrow> py_error + dataframe" where
  "to_pandas_dataframe e metadatas survey_templates =
     (let multiselect_map = construct_multiselect_map survey_templates
      in case series_loop e metadatas multiselect_map of
           Inl err \<Rightarrow> Inl err
         | Inr transformed \<Rightarrow>
             (case pd_DataFrame transformed of
                Inl err \<Rightarrow> Inl err
              | Inr df0 \<Rightarrow>
                  (let included_columns = set (columns df0);
                       all_ms = str_set_order e (all_multiselect_columns multiselect_map);
                       df1 = foldl (\<lambda>df column. fill_null_column column ''false'' df) df0
                               (str_set_order e [c \<leftarrow> all_ms. c \<in> included_columns]);
                       df2 = foldl (\<lambda>df column. set_column column ''false'' df) df1
                               (str_set_order e [c \<leftarrow> all_ms. c \<notin> set (columns df1)]);
                       df3 = fillna ''Missing: not provided'' df2;
                       df4 = replace_value [] ''Missing: not provided'' df3
                   in Inr df4)))"

subsection \<open>\<open>retrieve_metadata\<close>\<close>

fun fetch_loop ::
  "env \<Rightarrow> string list \<Rightarrow> raw_metadata list \<Rightarrow> report_entry list \<Rightarrow>
   raw_metadata list \<times> report_entry list" where
  "fetch_loop e [] fetched error_report = (fetched, error_report)"
| "fetch_loop e (barcode # rest) fetched error_report =
     (case fetch_barcode_metadata e barcode of
        (bc_md, Some errors) \<Rightarrow> fetch_loop e rest fetched (error_report @ [errors])
      | (bc_md, None) \<Rightarrow> fetch_loop e rest (fetched @ [bc_md]) error_report)"

definition retrieve_metadata ::
  "env \<Rightarrow> string list \<Rightarrow> py_error + (dataframe \<times> report_entry list)" where
  "retrieve_metadata e sample_barcodes =
     (let (dups, errors) = find_duplicates e sample_barcodes;
          error_report = (case errors of None \<Rightarrow> [] | Some err \<Rightarrow> [err]);
          (fetched, error_report) =
             fetch_loop e (str_set_order e sample_barcodes) [] error_report
      in if length fetched = 0
         then Inr (empty_frame, error_report @ [ErrorOnly ''No metadata was obtained''])
         else
           (case fetch_observed_survey_templates e fetched of
              (survey_templates, Some st_errors) \<Rightarrow>
                Inr (empty_frame, error_report @ [TemplateErrors st_errors])
            | (survey_templates, None) \<Rightarrow>
                (case to_pandas_dataframe e fetched survey_templates of
                   Inl err \<Rightarrow> Inl err
                 | Inr df \<Rightarrow> Inr (df, error_report))))"

subsection \<open>The specification's words, for comparison with the code\<close>

text \<open>
  A column is private when its lower-cased name starts with \<open>pm_\<close> or is the lower-cased
  form of a name of the denylist.
\<close>

definition private_column :: "string \<Rightarrow> bool" where
  "private_column c \<longleftrightarrow> startswith (lower c) ''pm_'' \<or> lower c \<in> set (map lower EBI_REMOVE)"

text \<open>
  The submissions that count: the first one is kept, every later submission of the same
  template is left out, and so on for the rest.
\<close>

function first_submissions :: "survey list \<Rightarrow> survey list" where
  "first_submissions [] = []"
| "first_submissions (s # rest) = s # first_submissions [r \<leftarrow> rest. template r \<noteq> template s]"
  by pat_completeness auto
termination
  by (relation "measure length") (auto simp: less_Suc_eq_le)


text \<open>
  What one answer of a processed submission adds to the record, in the words of the
  specification: for a question of the multiselect map, one entry \<open>(column, true)\<close> for
  every selected choice; otherwise the short-name with the free text stripped of its
  bracket-and-quote wrapper. What a submission adds is what its answers add, in order.
  The invariant fields of a sample are those of its site when it is human, and none
  otherwise. A list is acceptable as an answer only to a question of the map.
\<close>

definition emitted_by_answer ::
  "multiselect_map \<Rightarrow> int \<Rightarrow> string \<times> string \<times> answer \<Rightarrow> (string \<times> cell) list" where
  "emitted_by_answer mm t qa =
     (case map_of mm (t, fst qa) of
        Some names \<Rightarrow>
          (case snd (snd qa) of
             Choices selections \<Rightarrow>
               concat (map (\<lambda>sel. case map_of names sel of
                                     Some column \<Rightarrow> [(column, Some ''true'')]
                                   | None \<Rightarrow> []) selections)
           | Text s \<Rightarrow> [])
      | None \<Rightarrow>
          (case snd (snd qa) of
             Text s \<Rightarrow> [(fst (snd qa), Some (py_strip [CHR ''['', CHR '']'', CHR 0x22] s))]
           | Choices selections \<Rightarrow> []))"

definition emitted_by_submission :: "multiselect_map \<Rightarrow> survey \<Rightarrow> (string \<times> cell) list" where
  "emitted_by_submission mm s = concat (map (emitted_by_answer mm (template s)) (response s))"

definition invariant_fields :: "env \<Rightarrow> raw_metadata \<Rightarrow> (string \<times> cell) list" where
  "invariant_fields e metadata =
     (if source_type metadata = ''human''
      then (case map_of (HUMAN_SITE_INVARIANTS e) (site metadata) of
              Some invariants \<Rightarrow> map (\<lambda>vv. (fst vv, Some (snd vv))) invariants
            | None \<Rightarrow> [])
      else [])"

definition free_text_ok :: "multiselect_map \<Rightarrow> int \<Rightarrow> string \<times> string \<times> answer \<Rightarrow> bool" where
  "free_text_ok mm t qa =
     (case snd (snd qa) of
        Text s \<Rightarrow> True
      | Choices selections \<Rightarrow> map_of mm (t, fst qa) \<noteq> None)"

subsection \<open>Auxiliary notions for the statements\<close>

text \<open>A well-formed frame: every row has exactly one cell for every column, in order.\<close>

definition frame_ok :: "dataframe \<Rightarrow> bool" where
  "frame_ok df \<longleftrightarrow> list_all (\<lambda>r. map fst (snd r) = columns df) (rows df)"

text \<open>
  For a list of barcodes in the order they are requested: the payloads of the requests
  answered with status 200, the report entries of the other requests, and the report
  as it stands after the duplicate check.
\<close>

definition fetched_samples :: "env \<Rightarrow> string list \<Rightarrow> raw_metadata list" where
  "fetched_samples e bs =
     [snd (api_sample_surveys e b). b \<leftarrow> bs, fst (api_sample_surveys e b) = 200]"

definition fetch_errors :: "env \<Rightarrow> string list \<Rightarrow> report_entry list" where
  "fetch_errors e bs =
     [BarcodeError b (str_int (fst (api_sample_surveys e b)) @ '' from api'').
        b \<leftarrow> bs, fst (api_sample_surveys e b) \<noteq> 200]"

definition duplicates_report :: "env \<Rightarrow> string list \<Rightarrow> report_entry list" where
  "duplicates_report e bs = (case snd (find_duplicates e bs) of None \<Rightarrow> [] | Some d \<Rightarrow> [d])"

text \<open>
  The precondition of the flattener on a sample: every answer to a question of the
  multiselect map is a list whose selections are all keys of the map's entry, and the
  site of a human sample is a key of the site-invariant table.
\<close>

definition answer_ok :: "multiselect_map \<Rightarrow> int \<Rightarrow> string \<times> string \<times> answer \<Rightarrow> bool" where
  "answer_ok mm t qa =
     (case map_of mm (t, fst qa) of
        None \<Rightarrow> True
      | Some names \<Rightarrow>
          (case snd (snd qa) of
             Text s \<Rightarrow> False
           | Choices selections \<Rightarrow> list_all (\<lambda>sel. sel \<in> fst ` set names) selections))"

definition flattener_precondition :: "env \<Rightarrow> multiselect_map \<Rightarrow> raw_metadata \<Rightarrow> bool" where
  "flattener_precondition e mm metadata \<longleftrightarrow>
     list_all (\<lambda>s. list_all (answer_ok mm (template s)) (response s)) (survey_answers metadata) \<and>
     (source_type metadata = ''human'' \<longrightarrow> site metadata \<in> fst ` set (HUMAN_SITE_INVARIANTS e))"



subsection \<open>Example inputs\<close>

definition ex_template1 :: survey_template where
  "ex_template1 =
     [[\<lparr>field_multi = False, field_shortname = ''DIET_TYPE'', field_values = [],
        field_id = ''107''\<rparr>,
       \<lparr>field_multi = True, field_shortname = ''ALCOHOL_TYPES'',
        field_values = [''Beer/Cider'', ''Red wine'', ''Unspecified''], field_id = ''108''\<rparr>]]"

definition ex_blood_template :: survey_template where
  "ex_blood_template =
     [[\<lparr>field_multi = True, field_shortname = ''BLOOD_TYPE'',
        field_values = [''A+'', ''A''], field_id = ''5''\<rparr>]]"

definition ex_sample :: "string \<Rightarrow> string \<Rightarrow> string \<Rightarrow> survey list \<Rightarrow> raw_metadata" where
  "ex_sample barcode kind where_from answers =
     \<lparr>sample_barcode = barcode, host_subject_id = Some ''subject'', account_id = ''acct'',
      source_id = ''src'', source_type = kind, datetime_collected = None, site = where_from,
      source_description = [], survey_answers = answers\<rparr>"

definition ex_md1 :: raw_metadata where
  "ex_md1 = ex_sample ''000001'' ''human'' ''Stool''
     [\<lparr>template = 1,
       response = [(''107'', ''DIET_TYPE'', Text ''[Omnivore]''),
                   (''108'', ''ALCOHOL_TYPES'', Choices [''Red wine''])]\<rparr>]"

definition ex_md2 :: raw_metadata where
  "ex_md2 = ex_sample ''000002'' ''animal'' ''Fur''
     [\<lparr>template = 2, response = [(''7'', ''ZIP_CODE'', Text ''92093'')]\<rparr>]"

definition ex_md3 :: raw_metadata where
  "ex_md3 = ex_sample ''000003'' ''human'' ''Stool''
     [\<lparr>template = 10001, response = [(''1'', ''VIOSCREEN_FIBER'', Text ''12'')]\<rparr>]"

definition ex_md4 :: raw_metadata where
  "ex_md4 = ex_sample ''000004'' ''human'' ''Stool''
     [\<lparr>template = 3, response = [(''9'', ''SURF_BOARD'', Text ''Longboard'')]\<rparr>]"

definition ex_first :: survey where
  "ex_first = \<lparr>template = 1, response = [(''108'', ''ALCOHOL_TYPES'', Choices [''Red wine''])]\<rparr>"

definition ex_later :: survey where
  "ex_later = \<lparr>template = 1, response = [(''108'', ''ALCOHOL_TYPES'', Text ''Beer'')]\<rparr>"

definition ex_md5 :: raw_metadata where
  "ex_md5 = ex_sample ''000005'' ''human'' ''Stool'' [ex_first, ex_later]"

definition ex_map :: multiselect_map where
  "ex_map = construct_multiselect_map [(1, ex_template1)]"

text \<open>
  An environment: five samples are known and every other barcode answers 404, templates
  1 and 2 can be fetched and every other template answers 500, and a set is enumerated
  in the order \<open>remdups\<close> leaves.
\<close>

definition ex_env :: env where
  "ex_env =
     \<lparr>api_sample_surveys =
        (\<lambda>b. case map_of [(''000001'', ex_md1), (''000002'', ex_md2), (''000003'', ex_md3),
                           (''000004'', ex_md4), (''000005'', ex_md5)] b of
               Some md \<Rightarrow> (200, md)
             | None \<Rightarrow> (404, ex_sample [] [] [] [])),
      api_survey_template =
        (\<lambda>account source t. if t = 1 then (200, ex_template1)
                             else if t = 2 then (200, []) else (500, [])),
      HUMAN_SITE_INVARIANTS = [(''Stool'', [(''BODY_SITE'', ''UBERON:feces'')])],
      str_set_order = remdups,
      int_set_order = remdups\<rparr>"

definition ex_frame :: dataframe where
  "ex_frame =
     \<lparr>columns = [''HOST_SUBJECT_ID'', ''ZIP_CODE'', ''PM_Diet''],
      rows = [(''000002'', [(''HOST_SUBJECT_ID'', Some ''Missing: not provided''),
                           (''ZIP_CODE'', Some ''92093''), (''PM_Diet'', Some ''false'')])]\<rparr>"


definition ex_md6 :: raw_metadata where
  "ex_md6 = ex_sample ''000006'' ''human'' ''Stool''
     [ex_first,
      \<lparr>template = 2, response = [(''7'', ''ZIP_CODE'', Text ''92093'')]\<rparr>,
      ex_later]"

definition ex_table1 :: dataframe where
  "ex_table1 =
     \<lparr>columns = [''HOST_SUBJECT_ID'', ''COLLECTION_TIMESTAMP'', ''DIET_TYPE'',
                 ''ALCOHOL_TYPES_Red_wine'', ''BODY_SITE'',
                 ''ALCOHOL_TYPES_BeerCider'', ''ALCOHOL_TYPES_Unspecified''],
      rows = [(''000001'',
               [(''HOST_SUBJECT_ID'', Some ''subject''),
                (''COLLECTION_TIMESTAMP'', Some ''Missing: not provided''),
                (''DIET_TYPE'', Some ''Omnivore''),
                (''ALCOHOL_TYPES_Red_wine'', Some ''true''),
                (''BODY_SITE'', Some ''UBERON:feces''),
                (''ALCOHOL_TYPES_BeerCider'', Some ''false''),
                (''ALCOHOL_TYPES_Unspecified'', Some ''false'')])]\<rparr>"

section \<open>Properties\<close>

lemma re_sub_nonword_dropWhile:
  "re_sub_nonword (dropWhile (\<lambda>d. \<not> word_char d) cs) = re_sub_nonword cs"
  by (induction cs) auto

lemma re_sub_nonword_filter: "re_sub_nonword s = filter word_char s"
  by (induction s) (auto simp: re_sub_nonword_dropWhile)

lemma replace_char_twice:
  "replace_char CHR ''-'' CHR ''_'' (replace_char CHR '' '' CHR ''_'' s) =
   map (\<lambda>c. if c = CHR '' '' \<or> c = CHR ''-'' then CHR ''_'' else c) s"
  by (induction s) (auto simp: replace_char_def)

text \<open>
  C5: the canonical column name computed by \<open>_build_col_name\<close> is the short-name, an
  underscore, and the choice with every space and hyphen replaced by an underscore and
  every remaining character outside \<open>[0-9a-zA-Z_]\<close> removed. It is a function of the pair
  (short-name, choice) alone.
\<close>

theorem build_col_name_spec:
  "build_col_name short_name choice = spec_col_name short_name choice"
  by (simp add: build_col_name_def spec_col_name_def replace_char_twice
      re_sub_nonword_filter Let_def)

theorem build_col_name_spec_witness:
  "build_col_name ''ALCOHOL_TYPES'' ''Red wine-1 (dry)'' = ''ALCOHOL_TYPES_Red_wine_1_dry''"
  using build_col_name_spec [of "''ALCOHOL_TYPES''" "''Red wine-1 (dry)''"]
  by (simp add: spec_col_name_def word_char_def)

subsection \<open>Colliding choices\<close>

text \<open>
  C1: two distinct choices of one multiselect field whose canonical names coincide
  should make the mapper raise a naming error. In the code \<open>_build_col_name\<close> never
  raises: for the field \<open>BLOOD_TYPE\<close> with the choices \<open>A+\<close> and \<open>A\<close> the map is built and
  gives both choices the column \<open>BLOOD_TYPE_A\<close>.
\<close>

theorem construct_multiselect_map_collision:
  "construct_multiselect_map [(1, ex_blood_template)] =
     [((1, ''5''), [(''A+'', ''BLOOD_TYPE_A''), (''A'', ''BLOOD_TYPE_A'')])]"
  by (simp add: construct_multiselect_map_def ex_blood_template_def choices_loop_def
      build_col_name_def replace_char_def word_char_def)

subsection \<open>The environment and the fetch loop\<close>

lemma env_ok_str [simp]: "env_ok e \<Longrightarrow> set (str_set_order e xs) = set xs"
  and env_ok_str_distinct [simp]: "env_ok e \<Longrightarrow> distinct (str_set_order e xs)"
  and env_ok_int [simp]: "env_ok e \<Longrightarrow> set (int_set_order e ys) = set ys"
  and env_ok_int_distinct [simp]: "env_ok e \<Longrightarrow> distinct (int_set_order e ys)"
  by (simp_all add: env_ok_def set_order_ok_def)

lemma env_ok_ex_env: "env_ok ex_env"
  by (simp add: env_ok_def set_order_ok_def ex_env_def)

lemma fetch_loop_eq:
  "fetch_loop e bs fetched report = (fetched @ fetched_samples e bs, report @ fetch_errors e bs)"
  by (induction bs arbitrary: fetched report)
     (auto simp: fetch_barcode_metadata_def fetched_samples_def fetch_errors_def split: prod.splits)

lemma fetched_samples_Nil:
  "fetched_samples e bs = [] \<longleftrightarrow> (\<forall>b \<in> set bs. fst (api_sample_surveys e b) \<noteq> 200)"
  unfolding fetched_samples_def by (induction bs) auto

lemma fetch_errors_all:
  "\<forall>b \<in> set bs. fst (api_sample_surveys e b) \<noteq> 200 \<Longrightarrow>
   fetch_errors e bs = map (\<lambda>b. BarcodeError b (str_int (fst (api_sample_surveys e b)) @ '' from api'')) bs"
  unfolding fetch_errors_def by (induction bs) auto

lemma ErrorOnly_notin_fetch_errors: "ErrorOnly m \<notin> set (fetch_errors e bs)"
  unfolding fetch_errors_def by (induction bs) auto

lemma ErrorOnly_notin_duplicates_report: "ErrorOnly m \<notin> set (duplicates_report e bs)"
  by (simp add: duplicates_report_def find_duplicates_def Let_def)

lemma retrieve_metadata_unfold:
  "retrieve_metadata e bs =
     (if fetched_samples e (str_set_order e bs) = []
      then Inr (empty_frame, duplicates_report e bs @ fetch_errors e (str_set_order e bs) @
                  [ErrorOnly ''No metadata was obtained''])
      else
        (case fetch_observed_survey_templates e (fetched_samples e (str_set_order e bs)) of
           (survey_templates, Some st_errors) \<Rightarrow>
             Inr (empty_frame, duplicates_report e bs @ fetch_errors e (str_set_order e bs) @
                    [TemplateErrors st_errors])
         | (survey_templates, None) \<Rightarrow>
             (case to_pandas_dataframe e (fetched_samples e (str_set_order e bs)) survey_templates of
                Inl err \<Rightarrow> Inl err
              | Inr df \<Rightarrow> Inr (df, duplicates_report e bs @ fetch_errors e (str_set_order e bs)))))"
  by (auto simp: retrieve_metadata_def fetch_loop_eq duplicates_report_def Let_def
      split: prod.splits option.splits sum.splits)

subsection \<open>Total fetch failure\<close>

text \<open>
  C9: when every per-sample fetch fails, \<open>retrieve_metadata\<close> returns the empty table and
  a report made of the duplicates entry (if the batch has repeats), one entry
  \<open>{barcode, error: "<status> from api"}\<close> per requested barcode, and the terminal entry
  \<open>{error: "No metadata was obtained"}\<close>. Whenever \<open>retrieve_metadata\<close> returns, the
  terminal entry is in the report if and only if no sample was fetched.
\<close>

theorem retrieve_metadata_empty_result:
  assumes "env_ok e"
  shows "((\<forall>b \<in> set bs. fst (api_sample_surveys e b) \<noteq> 200) \<longrightarrow>
            retrieve_metadata e bs =
              Inr (empty_frame,
                   (case snd (find_duplicates e bs) of None \<Rightarrow> [] | Some d \<Rightarrow> [d]) @
                   map (\<lambda>b. BarcodeError b (str_int (fst (api_sample_surveys e b)) @ '' from api''))
                     (str_set_order e bs) @
                   [ErrorOnly ''No metadata was obtained''])) \<and>
         (\<forall>df report. retrieve_metadata e bs = Inr (df, report) \<longrightarrow>
            (ErrorOnly ''No metadata was obtained'' \<in> set report \<longleftrightarrow>
             (\<forall>b \<in> set bs. fst (api_sample_surveys e b) \<noteq> 200)))"
proof (intro conjI impI allI)
  assume a: "\<forall>b \<in> set bs. fst (api_sample_surveys e b) \<noteq> 200"
  with assms have a': "\<forall>b \<in> set (str_set_order e bs). fst (api_sample_surveys e b) \<noteq> 200"
    by simp
  then have "fetched_samples e (str_set_order e bs) = []"
    by (simp only: fetched_samples_Nil)
  then show "retrieve_metadata e bs =
              Inr (empty_frame,
                   (case snd (find_duplicates e bs) of None \<Rightarrow> [] | Some d \<Rightarrow> [d]) @
                   map (\<lambda>b. BarcodeError b (str_int (fst (api_sample_surveys e b)) @ '' from api''))
                     (str_set_order e bs) @
                   [ErrorOnly ''No metadata was obtained''])"
    by (simp add: retrieve_metadata_unfold fetch_errors_all [OF a'] duplicates_report_def)
next
  fix df report
  assume r: "retrieve_metadata e bs = Inr (df, report)"
  let ?F = "fetched_samples e (str_set_order e bs)"
  have F: "?F = [] \<longleftrightarrow> (\<forall>b \<in> set bs. fst (api_sample_surveys e b) \<noteq> 200)"
    using assms by (simp add: fetched_samples_Nil)
  have "ErrorOnly ''No metadata was obtained'' \<in> set report \<longleftrightarrow> ?F = []"
    using r unfolding retrieve_metadata_unfold
    by (auto simp: ErrorOnly_notin_fetch_errors ErrorOnly_notin_duplicates_report
        split: if_splits prod.splits option.splits sum.splits)
  with F show "ErrorOnly ''No metadata was obtained'' \<in> set report \<longleftrightarrow>
             (\<forall>b \<in> set bs. fst (api_sample_surveys e b) \<noteq> 200)"
    by simp
qed

theorem retrieve_metadata_empty_result_witness:
  "env_ok ex_env \<and>
   retrieve_metadata ex_env [''000009'', ''000008'', ''000009''] =
     Inr (empty_frame,
          [BarcodesError [''000009''] ''Duplicated barcodes in input'',
           BarcodeError ''000008'' ''404 from api'',
           BarcodeError ''000009'' ''404 from api'',
           ErrorOnly ''No metadata was obtained''])"
proof -
  have s: "\<forall>b \<in> set [''000009'', ''000008'', ''000009'']. fst (api_sample_surveys ex_env b) \<noteq> 200"
    by (simp add: ex_env_def)
  have d: "snd (find_duplicates ex_env [''000009'', ''000008'', ''000009'']) = Some (BarcodesError [''000009''] ''Duplicated barcodes in input'')"
    by (simp add: find_duplicates_def Counter_def ex_env_def Let_def)
  have o: "str_set_order ex_env [''000009'', ''000008'', ''000009''] = [''000008'', ''000009'']"
    by (simp add: ex_env_def)
  have t: "str_int 404 = ''404''" by (simp add: str_int_def digit_char_def)
  have a: "fst (api_sample_surveys ex_env ''000008'') = 404" "fst (api_sample_surveys ex_env ''000009'') = 404"
    by (simp_all add: ex_env_def)
  from retrieve_metadata_empty_result [OF env_ok_ex_env, of "[''000009'', ''000008'', ''000009'']"] s
  have "retrieve_metadata ex_env [''000009'', ''000008'', ''000009''] =
              Inr (empty_frame,
                   (case snd (find_duplicates ex_env [''000009'', ''000008'', ''000009'']) of None \<Rightarrow> [] | Some d \<Rightarrow> [d]) @
                   map (\<lambda>b. BarcodeError b (str_int (fst (api_sample_surveys ex_env b)) @ '' from api''))
                     (str_set_order ex_env [''000009'', ''000008'', ''000009'']) @
                   [ErrorOnly ''No metadata was obtained''])"
    by blast
  then show ?thesis unfolding d o using env_ok_ex_env by (simp add: a t)
qed

subsection \<open>Redaction of private columns\<close>

lemma to_drop_iff:
  assumes "c \<in> set (columns df)"
  shows "c \<in> set [c \<leftarrow> columns df. lower c \<in> set [lower c. c \<leftarrow> columns df, startswith (lower c) ''pm_''] \<union> set (map lower EBI_REMOVE)]
     \<longleftrightarrow> private_column c"
  using assms by (auto simp: private_column_def)

lemma filter_cong_set: "(\<And>x. x \<in> set xs \<Longrightarrow> P x = Q x) \<Longrightarrow> filter P xs = filter Q xs"
  by (rule filter_cong) auto

text \<open>
  C8, as amended: \<open>drop_private_columns\<close>, applied to a well-formed table, returns the
  table without the columns whose lower-cased name starts with \<open>pm_\<close> or is on the
  denylist (compared case-insensitively), whatever their cells hold; every other column
  and its cells are unchanged. \<open>retrieve_metadata\<close> itself does not apply it.
\<close>

theorem drop_private_columns_spec:
  assumes "frame_ok df"
  shows "columns (drop_private_columns df) = [c \<leftarrow> columns df. \<not> private_column c] \<and>
         rows (drop_private_columns df) =
           map (\<lambda>r. (fst r, [cv \<leftarrow> snd r. \<not> private_column (fst cv)])) (rows df)"
proof -
  let ?to_drop = "[c \<leftarrow> columns df. lower c \<in> set [lower c. c \<leftarrow> columns df, startswith (lower c) ''pm_''] \<union> set (map lower EBI_REMOVE)]"
  have d: "drop_private_columns df = drop_columns ?to_drop df"
    by (simp add: drop_private_columns_def Let_def)
  have c: "\<And>c. c \<in> set (columns df) \<Longrightarrow> (c \<notin> set ?to_drop) = (\<not> private_column c)"
    using to_drop_iff [of _ df] by blast
  have cols: "[c \<leftarrow> columns df. c \<notin> set ?to_drop] = [c \<leftarrow> columns df. \<not> private_column c]"
    by (rule filter_cong_set) (rule c)
  have rws: "map (\<lambda>r. (fst r, filter (\<lambda>cv. fst cv \<notin> set ?to_drop) (snd r))) (rows df) =
          map (\<lambda>r. (fst r, [cv \<leftarrow> snd r. \<not> private_column (fst cv)])) (rows df)"
  proof (rule map_cong [OF refl])
    fix r assume r: "r \<in> set (rows df)"
    with assms have l: "map fst (snd r) = columns df"
      by (simp add: frame_ok_def list_all_iff)
    have "filter (\<lambda>cv. fst cv \<notin> set ?to_drop) (snd r) = [cv \<leftarrow> snd r. \<not> private_column (fst cv)]"
    proof (rule filter_cong_set)
      fix cv assume "cv \<in> set (snd r)"
      then have "fst cv \<in> set (columns df)" using l by (metis image_eqI set_map)
      then show "(fst cv \<notin> set ?to_drop) = (\<not> private_column (fst cv))" by (rule c)
    qed
    then show "(fst r, filter (\<lambda>cv. fst cv \<notin> set ?to_drop) (snd r)) = (fst r, [cv \<leftarrow> snd r. \<not> private_column (fst cv)])"
      by simp
  qed
  show ?thesis unfolding d drop_columns_def using cols rws by simp
qed

lemma private_ZIP_CODE: "private_column ''ZIP_CODE''"
proof -
  have "''ZIP_CODE'' \<in> set EBI_REMOVE" by (simp add: EBI_REMOVE_def)
  then have "lower ''ZIP_CODE'' \<in> set (map lower EBI_REMOVE)" by simp
  then show ?thesis by (simp only: private_column_def simp_thms)
qed

lemma private_PM_Diet: "private_column ''PM_Diet''"
  by (simp add: private_column_def lower_def lower_char_def startswith_def)

lemma not_private_HOST_SUBJECT_ID: "\<not> private_column ''HOST_SUBJECT_ID''"
  unfolding private_column_def by code_simp

lemmas private_ex = not_private_HOST_SUBJECT_ID private_ZIP_CODE private_PM_Diet

theorem drop_private_columns_spec_witness:
  "frame_ok ex_frame \<and>
   columns (drop_private_columns ex_frame) = [''HOST_SUBJECT_ID''] \<and>
   rows (drop_private_columns ex_frame) = [(''000002'', [(''HOST_SUBJECT_ID'', Some ''Missing: not provided'')])]"
proof -
  have ok: "frame_ok ex_frame" by (simp add: frame_ok_def ex_frame_def)
  show ?thesis using ok drop_private_columns_spec [OF ok]
    by (simp add: ex_frame_def private_ex)
qed

text \<open>
  C8, as stated, fails for the table \<open>retrieve_metadata\<close> returns: for an animal sample
  whose only answer is the free-text field \<open>ZIP_CODE\<close>, that private column is in the
  returned table with its value.
\<close>

theorem retrieve_metadata_unredacted:
  "private_column ''ZIP_CODE'' \<and>
   retrieve_metadata ex_env [''000002''] =
     Inr (\<lparr>columns = [''HOST_SUBJECT_ID'', ''COLLECTION_TIMESTAMP'', ''ZIP_CODE''],
           rows = [(''000002'', [(''HOST_SUBJECT_ID'', Some ''subject''),
                                (''COLLECTION_TIMESTAMP'', Some ''Missing: not provided''),
                                (''ZIP_CODE'', Some ''92093'')])]\<rparr>, [])"
  by (simp add: private_ex retrieve_metadata_def find_duplicates_def Counter_def ex_env_def
      fetch_barcode_metadata_def ex_md2_def ex_sample_def fetch_observed_survey_templates_def
      TEMPLATES_TO_IGNORE_def fetch_survey_template_def to_pandas_dataframe_def
      construct_multiselect_map_def to_pandas_series_def py_strip_def pd_DataFrame_def
      first_seen_def all_multiselect_columns_def fillna_def replace_value_def Let_def)

subsection \<open>The duplicate detector\<close>

lemma Counter_step_map_of:
  "map_of (foldl (\<lambda>counts b. AList.update b (case map_of counts b of None \<Rightarrow> 1 | Some n \<Rightarrow> n + 1) counts) acc bs) b =
     (if b \<in> set bs
      then Some (count_list bs b + (case map_of acc b of None \<Rightarrow> 0 | Some n \<Rightarrow> n))
      else map_of acc b)"
  by (induction bs arbitrary: acc) (auto simp: update_conv' split: option.splits)

lemma Counter_step_distinct:
  "distinct (map fst acc) \<Longrightarrow>
   distinct (map fst (foldl (\<lambda>counts b. AList.update b (case map_of counts b of None \<Rightarrow> 1 | Some n \<Rightarrow> n + 1) counts) acc bs))"
  by (induction bs arbitrary: acc) (auto simp: distinct_update)

lemma map_of_Counter:
  "map_of (Counter bs) b = (if b \<in> set bs then Some (count_list bs b) else None)"
  by (simp add: Counter_def Counter_step_map_of)

lemma distinct_Counter: "distinct (map fst (Counter bs))"
  by (simp add: Counter_def Counter_step_distinct)

lemma Counter_dups:
  "set [fst bc. bc \<leftarrow> Counter bs, snd bc > 1] = {b. count_list bs b > 1}"
proof -
  have m: "\<And>b n. (b, n) \<in> set (Counter bs) \<longleftrightarrow> b \<in> set bs \<and> n = count_list bs b"
    using map_of_Counter [of bs] distinct_Counter [of bs]
    by (metis map_of_eq_Some_iff option.distinct(1) option.inject)
  have i: "\<And>b. count_list bs b > 1 \<Longrightarrow> b \<in> set bs"
    by (metis count_list_0_iff not_less_zero)
  have "set [fst bc. bc \<leftarrow> Counter bs, snd bc > 1] = fst ` {bc \<in> set (Counter bs). snd bc > 1}"
    by (induction "Counter bs") auto
  also have "\<dots> = {b. count_list bs b > 1}"
  proof (intro set_eqI iffI)
    fix b assume "b \<in> fst ` {bc \<in> set (Counter bs). snd bc > 1}"
    then obtain n where "(b, n) \<in> set (Counter bs)" "n > 1" by auto
    with m show "b \<in> {b. count_list bs b > 1}" by simp
  next
    fix b assume "b \<in> {b. count_list bs b > 1}"
    then have c: "count_list bs b > 1" by simp
    with i m have "(b, count_list bs b) \<in> set (Counter bs)" by simp
    with c show "b \<in> fst ` {bc \<in> set (Counter bs). snd bc > 1}" by force
  qed
  finally show ?thesis .
qed

lemma distinct_count_list: "distinct bs \<longleftrightarrow> (\<forall>b. count_list bs b \<le> 1)"
proof (induction bs)
  case Nil then show ?case by simp
next
  case (Cons a bs)
  show ?case
  proof
    assume d: "distinct (a # bs)"
    then have "count_list bs a = 0" by (simp add: count_list_0_iff)
    with d Cons show "\<forall>b. count_list (a # bs) b \<le> 1" by auto
  next
    assume c: "\<forall>b. count_list (a # bs) b \<le> 1"
    then have "count_list (a # bs) a \<le> 1" by blast
    then have "a \<notin> set bs" by (simp add: count_list_0_iff)
    moreover have "\<forall>b. count_list bs b \<le> 1"
    proof
      fix b from c have "count_list (a # bs) b \<le> 1" by blast
      then show "count_list bs b \<le> 1" by (simp split: if_splits)
    qed
    ultimately show "distinct (a # bs)" using Cons by simp
  qed
qed


lemma find_duplicates_set:
  assumes "env_ok e"
  shows "set (fst (find_duplicates e bs)) = {b. count_list bs b > 1}"
proof -
  have "fst (find_duplicates e bs) = str_set_order e [fst bc. bc \<leftarrow> Counter bs, snd bc > 1]"
    by (simp add: find_duplicates_def Let_def)
  then have "set (fst (find_duplicates e bs)) = set [fst bc. bc \<leftarrow> Counter bs, snd bc > 1]"
    using assms by (simp only: env_ok_str)
  then show ?thesis by (simp only: Counter_dups)
qed

lemma find_duplicates_error:
  "snd (find_duplicates e bs) =
     (if fst (find_duplicates e bs) = [] then None
      else Some (BarcodesError (fst (find_duplicates e bs)) ''Duplicated barcodes in input''))"
  by (simp add: find_duplicates_def Let_def)

subsection \<open>Duplicate submissions of one template\<close>

lemma survey_loop_filter:
  "C \<subseteq> D \<Longrightarrow> survey_loop mm [x \<leftarrow> xs. template x \<notin> C] D acc = survey_loop mm xs D acc"
proof (induction xs arbitrary: D acc)
  case Nil then show ?case by simp
next
  case (Cons x xs)
  from Cons.prems have i: "\<And>y. C \<subseteq> insert y D" by blast
  show ?case using Cons.prems Cons.IH [OF Cons.prems] Cons.IH [OF i]
    by (auto split: sum.splits)
qed

lemma survey_loop_first_submissions:
  "survey_loop mm (first_submissions xs) C acc = survey_loop mm xs C acc"
proof (induction xs arbitrary: C acc rule: first_submissions.induct)
  case 1 then show ?case by simp
next
  case (2 s rest)
  have f: "[r \<leftarrow> rest. template r \<noteq> template s] = [r \<leftarrow> rest. template r \<notin> {template s}]"
    by simp
  show ?case
  proof (cases "template s \<in> C")
    case True
    then have "{template s} \<subseteq> C" by simp
    from survey_loop_filter [OF this, of mm rest acc] True show ?thesis
      by (simp add: "2.IH")
  next
    case False
    have "\<And>acc'. survey_loop mm [r \<leftarrow> rest. template r \<noteq> template s] (insert (template s) C) acc' =
         survey_loop mm rest (insert (template s) C) acc'"
      unfolding f by (rule survey_loop_filter) simp
    with False show ?thesis by (simp add: "2.IH" split: sum.splits)
  qed
qed

lemma first_submissions_subset: "set (first_submissions xs) \<subseteq> set xs"
  by (induction xs rule: first_submissions.induct) auto

lemma distinct_first_submissions: "distinct (map template (first_submissions xs))"
proof (induction xs rule: first_submissions.induct)
  case 1 then show ?case by simp
next
  case (2 s rest)
  have "template s \<notin> template ` set (first_submissions [r \<leftarrow> rest. template r \<noteq> template s])"
    using first_submissions_subset [of "[r \<leftarrow> rest. template r \<noteq> template s]"] by auto
  with 2 show ?case by simp
qed

lemma first_submissions_later:
  "template s \<in> template ` set pre \<Longrightarrow>
   first_submissions (pre @ s # post) = first_submissions (pre @ post)"
proof (induction "length pre" arbitrary: pre post rule: less_induct)
  case less
  from less.prems obtain p pre' where pre: "pre = p # pre'" by (cases pre) auto
  show ?case
  proof (cases "template s = template p")
    case True
    then show ?thesis by (simp add: pre)
  next
    case False
    let ?f = "[r \<leftarrow> pre'. template r \<noteq> template p]"
    from False less.prems pre have "template s \<in> template ` set ?f" by auto
    moreover have "length ?f < length pre" by (simp add: pre less_Suc_eq_le)
    ultimately have "first_submissions (?f @ s # [r \<leftarrow> post. template r \<noteq> template p]) =
        first_submissions (?f @ [r \<leftarrow> post. template r \<noteq> template p])"
      using less.hyps by blast
    with False show ?thesis by (simp add: pre)
  qed
qed

lemma ex_map_eq:
  "ex_map = [((1, ''108''), [(''Beer/Cider'', ''ALCOHOL_TYPES_BeerCider''),
                            (''Red wine'', ''ALCOHOL_TYPES_Red_wine''),
                            (''Unspecified'', ''ALCOHOL_TYPES_Unspecified'')])]"
  by (simp add: ex_map_def construct_multiselect_map_def ex_template1_def choices_loop_def
      build_col_name_def replace_char_def word_char_def)

subsection \<open>The precondition of the flattener\<close>

lemma map_of_Some_fst: "map_of al k = Some v \<Longrightarrow> k \<in> fst ` set al"
  by (metis map_of_eq_None_iff option.distinct(1))

lemma selection_loop_Inr:
  "selection_loop names sels acc = Inr r \<Longrightarrow> list_all (\<lambda>sel. sel \<in> fst ` set names) sels"
proof (induction sels arbitrary: acc)
  case Nil then show ?case by simp
next
  case (Cons sel sels)
  then obtain n where n: "map_of names sel = Some n"
    by (cases "map_of names sel") simp_all
  with Cons.prems have "selection_loop names sels (acc @ [(n, Some ''true'')]) = Inr r" by simp
  from Cons.IH [OF this] map_of_Some_fst [OF n] show ?case by simp
qed

lemma selection_loop_ok:
  "list_all (\<lambda>sel. sel \<in> fst ` set names) sels \<Longrightarrow> \<exists>r. selection_loop names sels acc = Inr r"
proof (induction sels arbitrary: acc)
  case Nil then show ?case by simp
next
  case (Cons sel sels)
  then have "map_of names sel \<noteq> None" by (simp add: map_of_eq_None_iff)
  then obtain n where "map_of names sel = Some n" by blast
  with Cons show ?case by simp
qed

lemma response_loop_Inr:
  "response_loop mm t resp acc = Inr r \<Longrightarrow> list_all (answer_ok mm t) resp"
proof (induction resp arbitrary: acc)
  case Nil then show ?case by simp
next
  case (Cons qa resp)
  obtain qid shortname a where qa: "qa = (qid, shortname, a)" by (cases qa)
  show ?case
  proof (cases "map_of mm (t, qid)")
    case None
    with Cons.prems obtain s where a: "a = Text s" by (cases a) (simp_all add: qa)
    with Cons.prems None
    have "response_loop mm t resp (acc @ [(shortname, Some (py_strip [CHR ''['', CHR '']'', CHR 0x22] s))]) = Inr r"
      by (simp add: qa)
    from Cons.IH [OF this] None show ?thesis by (simp add: qa answer_ok_def)
  next
    case (Some names)
    with Cons.prems obtain sels where a: "a = Choices sels" by (cases a) (simp_all add: qa)
    with Cons.prems Some obtain acc' where sl: "selection_loop names sels acc = Inr acc'"
      and rl: "response_loop mm t resp acc' = Inr r"
      by (auto simp: qa split: sum.splits)
    from Cons.IH [OF rl] selection_loop_Inr [OF sl] Some a show ?thesis
      by (simp add: qa answer_ok_def)
  qed
qed

lemma response_loop_ok:
  "list_all (answer_ok mm t) resp \<Longrightarrow>
   response_loop mm t resp acc \<noteq> Inl AssertionError \<and> response_loop mm t resp acc \<noteq> Inl KeyError"
proof (induction resp arbitrary: acc)
  case Nil then show ?case by simp
next
  case (Cons qa resp)
  obtain qid shortname a where qa: "qa = (qid, shortname, a)" by (cases qa)
  show ?case
  proof (cases "map_of mm (t, qid)")
    case None
    with Cons show ?thesis by (cases a) (simp_all add: qa)
  next
    case (Some names)
    with Cons.prems obtain sels where a: "a = Choices sels"
      and s: "list_all (\<lambda>sel. sel \<in> fst ` set names) sels"
      by (cases a) (simp_all add: qa answer_ok_def)
    from selection_loop_ok [OF s, of acc] obtain r where "selection_loop names sels acc = Inr r"
      by blast
    with Cons Some a show ?thesis by (simp add: qa)
  qed
qed

lemma survey_loop_Inr:
  "distinct (map template xs) \<Longrightarrow> template ` set xs \<inter> C = {} \<Longrightarrow>
   survey_loop mm xs C acc = Inr r \<Longrightarrow>
   list_all (\<lambda>s. list_all (answer_ok mm (template s)) (response s)) xs"
proof (induction xs arbitrary: C acc)
  case Nil then show ?case by simp
next
  case (Cons x xs)
  from Cons.prems have n: "template x \<notin> C" by auto
  with Cons.prems(3) obtain acc' where r: "response_loop mm (template x) (response x) acc = Inr acc'"
    and l: "survey_loop mm xs (insert (template x) C) acc' = Inr r"
    by (auto split: sum.splits)
  from Cons.prems have "distinct (map template xs)" "template ` set xs \<inter> insert (template x) C = {}"
    by auto
  from Cons.IH [OF this l] response_loop_Inr [OF r] show ?case by simp
qed

lemma survey_loop_ok:
  "list_all (\<lambda>s. list_all (answer_ok mm (template s)) (response s)) xs \<Longrightarrow>
   survey_loop mm xs C acc \<noteq> Inl AssertionError \<and> survey_loop mm xs C acc \<noteq> Inl KeyError"
proof (induction xs arbitrary: C acc)
  case Nil then show ?case by simp
next
  case (Cons x xs)
  then have "response_loop mm (template x) (response x) acc \<noteq> Inl AssertionError"
    "response_loop mm (template x) (response x) acc \<noteq> Inl KeyError"
    using response_loop_ok [of mm "template x" "response x" acc] by simp_all
  with Cons show ?case by (auto split: sum.splits)
qed

text \<open>
  C10, as amended: take the submissions that are processed, that is the first submission
  of each template. If some answer of a processed submission to a question of the
  multiselect map is not a list, or selects a choice that is not a key of the map's
  entry, or the sample is human and its site is not a key of the site-invariant table,
  then \<open>_to_pandas_series\<close> raises instead of returning a record. If none of these is the
  case, it raises neither an assertion error nor a key error.
\<close>

theorem to_pandas_series_precondition:
  fixes e metadata mm
  defines "processed \<equiv> metadata\<lparr>survey_answers := first_submissions (survey_answers metadata)\<rparr>"
  shows "(\<not> flattener_precondition e mm processed \<longrightarrow>
            (\<exists>err. to_pandas_series e metadata mm = Inl err)) \<and>
         (flattener_precondition e mm processed \<longrightarrow>
            to_pandas_series e metadata mm \<noteq> Inl AssertionError \<and>
            to_pandas_series e metadata mm \<noteq> Inl KeyError)"
proof (rule conjI; rule impI)
  assume n: "\<not> flattener_precondition e mm processed"
  show "\<exists>err. to_pandas_series e metadata mm = Inl err"
  proof (rule ccontr)
    assume "\<not> (\<exists>err. to_pandas_series e metadata mm = Inl err)"
    then obtain r where r: "to_pandas_series e metadata mm = Inr r"
      by (cases "to_pandas_series e metadata mm") auto
    then have site: "source_type metadata = ''human'' \<longrightarrow> site metadata \<in> fst ` set (HUMAN_SITE_INVARIANTS e)"
      by (auto simp: to_pandas_series_def split: option.splits if_splits dest: map_of_Some_fst)
    from r obtain items where "survey_loop mm (survey_answers metadata) {}
         [(''HOST_SUBJECT_ID'', host_subject_id metadata),
          (''COLLECTION_TIMESTAMP'', datetime_collected metadata)] = Inr items"
      by (auto simp: to_pandas_series_def split: option.splits if_splits sum.splits)
    then have "survey_loop mm (first_submissions (survey_answers metadata)) {}
         [(''HOST_SUBJECT_ID'', host_subject_id metadata),
          (''COLLECTION_TIMESTAMP'', datetime_collected metadata)] = Inr items"
      by (simp only: survey_loop_first_submissions)
    from survey_loop_Inr [OF distinct_first_submissions _ this]
    have "list_all (\<lambda>s. list_all (answer_ok mm (template s)) (response s))
            (first_submissions (survey_answers metadata))" by simp
    with site have "flattener_precondition e mm processed"
      by (simp add: flattener_precondition_def processed_def)
    with n show False by simp
  qed
next
  assume p: "flattener_precondition e mm processed"
  then have a: "list_all (\<lambda>s. list_all (answer_ok mm (template s)) (response s))
            (first_submissions (survey_answers metadata))"
    and site: "source_type metadata = ''human'' \<longrightarrow> site metadata \<in> fst ` set (HUMAN_SITE_INVARIANTS e)"
    by (simp_all add: flattener_precondition_def processed_def)
  let ?acc = "[(''HOST_SUBJECT_ID'', host_subject_id metadata),
          (''COLLECTION_TIMESTAMP'', datetime_collected metadata)]"
  from survey_loop_ok [OF a, of "{}" ?acc]
  have l: "survey_loop mm (survey_answers metadata) {} ?acc \<noteq> Inl AssertionError"
    "survey_loop mm (survey_answers metadata) {} ?acc \<noteq> Inl KeyError"
    by (simp_all add: survey_loop_first_submissions)
  have inv: "source_type metadata = ''human'' \<Longrightarrow> \<exists>i. map_of (HUMAN_SITE_INVARIANTS e) (site metadata) = Some i"
    using site by (cases "map_of (HUMAN_SITE_INVARIANTS e) (site metadata)") (auto simp: map_of_eq_None_iff)
  show "to_pandas_series e metadata mm \<noteq> Inl AssertionError \<and>
            to_pandas_series e metadata mm \<noteq> Inl KeyError"
    using l inv by (auto simp: to_pandas_series_def split: sum.splits option.splits)
qed

theorem to_pandas_series_precondition_witness:
  "flattener_precondition ex_env ex_map
     (ex_md1\<lparr>survey_answers := first_submissions (survey_answers ex_md1)\<rparr>) \<and>
   to_pandas_series ex_env ex_md1 ex_map \<noteq> Inl AssertionError \<and>
   to_pandas_series ex_env ex_md1 ex_map \<noteq> Inl KeyError \<and>
   \<not> flattener_precondition ex_env ex_map
     (ex_md1\<lparr>survey_answers := first_submissions [ex_later]\<rparr>) \<and>
   (\<exists>err. to_pandas_series ex_env (ex_md1\<lparr>survey_answers := [ex_later]\<rparr>) ex_map = Inl err)"
proof -
  have p: "flattener_precondition ex_env ex_map
     (ex_md1\<lparr>survey_answers := first_submissions (survey_answers ex_md1)\<rparr>)"
    by (simp add: flattener_precondition_def answer_ok_def ex_map_eq ex_md1_def ex_sample_def
        ex_env_def)
  have n: "\<not> flattener_precondition ex_env ex_map
     (ex_md1\<lparr>survey_answers := first_submissions [ex_later]\<rparr>)"
    by (simp add: flattener_precondition_def answer_ok_def ex_map_eq ex_later_def)
  from to_pandas_series_precondition [of ex_env ex_map ex_md1] p
  have a: "to_pandas_series ex_env ex_md1 ex_map \<noteq> Inl AssertionError \<and>
      to_pandas_series ex_env ex_md1 ex_map \<noteq> Inl KeyError" by blast
  from to_pandas_series_precondition [of ex_env ex_map "ex_md1\<lparr>survey_answers := [ex_later]\<rparr>"] n
  have "\<exists>err. to_pandas_series ex_env (ex_md1\<lparr>survey_answers := [ex_later]\<rparr>) ex_map = Inl err"
    by simp
  with p n a show ?thesis by blast
qed

text \<open>
  C10, as stated for every survey answer, fails: in the sample \<open>ex_md5\<close> the second
  submission of template 1 answers the multiselect question 108 with free text, so the
  stated precondition does not hold, yet that submission is skipped and the flattener
  returns a record.
\<close>

theorem to_pandas_series_later_duplicate:
  "\<not> flattener_precondition ex_env ex_map ex_md5 \<and>
   to_pandas_series ex_env ex_md5 ex_map =
     Inr (''000005'', [(''HOST_SUBJECT_ID'', Some ''subject''), (''COLLECTION_TIMESTAMP'', None),
                      (''ALCOHOL_TYPES_Red_wine'', Some ''true''),
                      (''BODY_SITE'', Some ''UBERON:feces'')])"
  by (simp add: flattener_precondition_def answer_ok_def to_pandas_series_def ex_map_eq
      ex_md5_def ex_sample_def ex_first_def ex_later_def ex_env_def)

subsection \<open>Fetching the observed templates\<close>




lemma surveys_loop_step:
  "surveys_loop e ((t, a, s) # T) S E =
     (if fst (api_survey_template e a s t) \<noteq> 200
      then surveys_loop e T S
             (AList.update t ((a, s, t), str_int (fst (api_survey_template e a s t)) @ '' from api'') E)
      else surveys_loop e T (AList.update t (snd (api_survey_template e a s t)) S) E)"
  by (cases "api_survey_template e a s t") (simp add: fetch_survey_template_def Let_def)






lemma fetch_observed_unfold:
  "fetch_observed_survey_templates e mds =
     (fst (surveys_loop e (templates_loop e mds []) [] []),
      if snd (surveys_loop e (templates_loop e mds []) [] []) \<noteq> []
      then Some (snd (surveys_loop e (templates_loop e mds []) [] [])) else None)"
  by (simp add: fetch_observed_survey_templates_def Let_def split: prod.splits)




subsection \<open>Ignored templates\<close>










subsection \<open>Assembling the table\<close>



lemma set_first_seen [simp]: "set (first_seen xs) = set xs"
  and distinct_first_seen [simp]: "distinct (first_seen xs)"
  by (simp_all add: first_seen_def)

















subsection \<open>What the flattened record holds\<close>

lemma selection_loop_emits:
  "selection_loop names sels acc = Inr r \<Longrightarrow>
   r = acc @ concat (map (\<lambda>sel. case map_of names sel of
                                   Some column \<Rightarrow> [(column, Some ''true'')]
                                 | None \<Rightarrow> []) sels)"
proof (induction sels arbitrary: acc)
  case Nil then show ?case by simp
next
  case (Cons sel sels)
  then obtain n where n: "map_of names sel = Some n"
    by (cases "map_of names sel") simp_all
  with Cons.prems have "selection_loop names sels (acc @ [(n, Some ''true'')]) = Inr r" by simp
  from Cons.IH [OF this] n show ?case by simp
qed

lemma response_loop_emits:
  "response_loop mm t resp acc = Inr r \<Longrightarrow>
   r = acc @ concat (map (emitted_by_answer mm t) resp)"
proof (induction resp arbitrary: acc)
  case Nil then show ?case by simp
next
  case (Cons qa resp)
  obtain qid shortname a where qa: "qa = (qid, shortname, a)" by (cases qa)
  show ?case
  proof (cases "map_of mm (t, qid)")
    case None
    with Cons.prems obtain s where a: "a = Text s" by (cases a) (simp_all add: qa)
    with Cons.prems None
    have "response_loop mm t resp (acc @ [(shortname, Some (py_strip [CHR ''['', CHR '']'', CHR 0x22] s))]) = Inr r"
      by (simp add: qa)
    from Cons.IH [OF this] None a show ?thesis by (simp add: qa emitted_by_answer_def)
  next
    case (Some names)
    with Cons.prems obtain sels where a: "a = Choices sels" by (cases a) (simp_all add: qa)
    with Cons.prems Some obtain acc' where sl: "selection_loop names sels acc = Inr acc'"
      and rl: "response_loop mm t resp acc' = Inr r"
      by (auto simp: qa split: sum.splits)
    from Cons.IH [OF rl] selection_loop_emits [OF sl] Some a show ?thesis
      by (simp add: qa emitted_by_answer_def)
  qed
qed

lemma survey_loop_emits:
  "distinct (map template xs) \<Longrightarrow> template ` set xs \<inter> C = {} \<Longrightarrow>
   survey_loop mm xs C acc = Inr r \<Longrightarrow>
   r = acc @ concat (map (emitted_by_submission mm) xs)"
proof (induction xs arbitrary: C acc)
  case Nil then show ?case by simp
next
  case (Cons x xs)
  from Cons.prems have n: "template x \<notin> C" by auto
  with Cons.prems(3) obtain acc' where r: "response_loop mm (template x) (response x) acc = Inr acc'"
    and l: "survey_loop mm xs (insert (template x) C) acc' = Inr r"
    by (auto split: sum.splits)
  from Cons.prems have "distinct (map template xs)" "template ` set xs \<inter> insert (template x) C = {}"
    by auto
  from Cons.IH [OF this l] response_loop_emits [OF r] show ?case
    by (simp add: emitted_by_submission_def)
qed

lemma response_loop_returns:
  "list_all (answer_ok mm t) resp \<Longrightarrow> list_all (free_text_ok mm t) resp \<Longrightarrow>
   \<exists>r. response_loop mm t resp acc = Inr r"
proof (induction resp arbitrary: acc)
  case Nil then show ?case by simp
next
  case (Cons qa resp)
  obtain qid shortname a where qa: "qa = (qid, shortname, a)" by (cases qa)
  show ?case
  proof (cases "map_of mm (t, qid)")
    case None
    with Cons.prems obtain s where a: "a = Text s"
      by (cases a) (simp_all add: qa free_text_ok_def)
    with Cons None show ?thesis by (simp add: qa)
  next
    case (Some names)
    with Cons.prems obtain sels where a: "a = Choices sels"
      and s: "list_all (\<lambda>sel. sel \<in> fst ` set names) sels"
      by (cases a) (simp_all add: qa answer_ok_def)
    from selection_loop_ok [OF s, of acc] obtain r where "selection_loop names sels acc = Inr r"
      by blast
    with Cons Some a show ?thesis by (simp add: qa)
  qed
qed

lemma survey_loop_returns:
  "list_all (\<lambda>s. list_all (answer_ok mm (template s)) (response s)) xs \<Longrightarrow>
   list_all (\<lambda>s. list_all (free_text_ok mm (template s)) (response s)) xs \<Longrightarrow>
   \<exists>r. survey_loop mm xs C acc = Inr r"
proof (induction xs arbitrary: C acc)
  case Nil then show ?case by simp
next
  case (Cons x xs)
  then obtain acc' where "response_loop mm (template x) (response x) acc = Inr acc'"
    using response_loop_returns [of mm "template x" "response x" acc] by auto
  with Cons show ?case by simp
qed


lemma to_pandas_series_Inr:
  assumes "to_pandas_series e metadata mm = Inr r"
  shows "r = (sample_barcode metadata,
              [(''HOST_SUBJECT_ID'', host_subject_id metadata),
               (''COLLECTION_TIMESTAMP'', datetime_collected metadata)] @
              concat (map (emitted_by_submission mm) (first_submissions (survey_answers metadata))) @
              invariant_fields e metadata)"
proof -
  let ?acc = "[(''HOST_SUBJECT_ID'', host_subject_id metadata),
               (''COLLECTION_TIMESTAMP'', datetime_collected metadata)]"
  from assms obtain items where l: "survey_loop mm (survey_answers metadata) {} ?acc = Inr items"
    by (auto simp: to_pandas_series_def split: option.splits if_splits sum.splits)
  then have "survey_loop mm (first_submissions (survey_answers metadata)) {} ?acc = Inr items"
    by (simp only: survey_loop_first_submissions)
  from survey_loop_emits [OF distinct_first_submissions _ this]
  have i: "items = ?acc @ concat (map (emitted_by_submission mm) (first_submissions (survey_answers metadata)))"
    by simp
  from assms l have "r = (sample_barcode metadata, items @ invariant_fields e metadata)"
    by (auto simp: to_pandas_series_def invariant_fields_def split: option.splits if_splits)
  with i show ?thesis by simp
qed

lemma to_pandas_series_returns:
  assumes "flattener_precondition e mm
             (metadata\<lparr>survey_answers := first_submissions (survey_answers metadata)\<rparr>)"
    and "list_all (\<lambda>s. list_all (free_text_ok mm (template s)) (response s))
           (first_submissions (survey_answers metadata))"
  shows "\<exists>r. to_pandas_series e metadata mm = Inr r"
proof -
  let ?acc = "[(''HOST_SUBJECT_ID'', host_subject_id metadata),
               (''COLLECTION_TIMESTAMP'', datetime_collected metadata)]"
  from assms(1) have a: "list_all (\<lambda>s. list_all (answer_ok mm (template s)) (response s))
            (first_submissions (survey_answers metadata))"
    and site: "source_type metadata = ''human'' \<longrightarrow> site metadata \<in> fst ` set (HUMAN_SITE_INVARIANTS e)"
    by (simp_all add: flattener_precondition_def)
  from survey_loop_returns [OF a assms(2), of "{}" ?acc]
  obtain items where "survey_loop mm (first_submissions (survey_answers metadata)) {} ?acc = Inr items"
    by blast
  then have l: "survey_loop mm (survey_answers metadata) {} ?acc = Inr items"
    by (simp only: survey_loop_first_submissions)
  have inv: "source_type metadata = ''human'' \<Longrightarrow> \<exists>i. map_of (HUMAN_SITE_INVARIANTS e) (site metadata) = Some i"
    using site by (cases "map_of (HUMAN_SITE_INVARIANTS e) (site metadata)") (auto simp: map_of_eq_None_iff)
  show ?thesis
  proof (cases "source_type metadata = ''human''")
    case True
    with inv obtain i where "map_of (HUMAN_SITE_INVARIANTS e) (site metadata) = Some i" by blast
    with True l show ?thesis by (simp add: to_pandas_series_def)
  next
    case False
    with l show ?thesis by (simp add: to_pandas_series_def)
  qed
qed

text \<open>
  C6: when a sample carries several submissions of one template, the flattened record
  reflects the first-encountered submission of each template only, in the original
  order. Whenever the flattener returns, the record is the two base columns, then what
  each first submission adds (in the order of the submissions), then the invariant
  fields; nothing of a later submission of an already seen template is in it. The
  flattener does return when the answers of the first submissions are well-formed,
  whatever the later duplicates hold. Flattening gives the same result (record or
  exception) as flattening without the later duplicates, so a later duplicate is dropped
  silently; the flattener has no error entry to give.
\<close>

theorem to_pandas_series_first_seen:
  "to_pandas_series e (metadata\<lparr>survey_answers := first_submissions (survey_answers metadata)\<rparr>) mm =
     to_pandas_series e metadata mm \<and>
   (template s \<in> template ` set pre \<longrightarrow>
      to_pandas_series e (metadata\<lparr>survey_answers := pre @ s # post\<rparr>) mm =
      to_pandas_series e (metadata\<lparr>survey_answers := pre @ post\<rparr>) mm) \<and>
   (\<forall>r. to_pandas_series e metadata mm = Inr r \<longrightarrow>
      r = (sample_barcode metadata,
           [(''HOST_SUBJECT_ID'', host_subject_id metadata),
            (''COLLECTION_TIMESTAMP'', datetime_collected metadata)] @
           concat (map (emitted_by_submission mm) (first_submissions (survey_answers metadata))) @
           invariant_fields e metadata)) \<and>
   (flattener_precondition e mm
      (metadata\<lparr>survey_answers := first_submissions (survey_answers metadata)\<rparr>) \<and>
    list_all (\<lambda>s. list_all (free_text_ok mm (template s)) (response s))
      (first_submissions (survey_answers metadata)) \<longrightarrow>
    (\<exists>r. to_pandas_series e metadata mm = Inr r))"
proof (intro conjI impI allI)
  show "to_pandas_series e (metadata\<lparr>survey_answers := first_submissions (survey_answers metadata)\<rparr>) mm =
     to_pandas_series e metadata mm"
    by (simp add: to_pandas_series_def survey_loop_first_submissions
        cong: sum.case_cong option.case_cong)
next
  assume a: "template s \<in> template ` set pre"
  have "survey_loop mm (pre @ s # post) {} acc = survey_loop mm (pre @ post) {} acc" for acc
    using survey_loop_first_submissions [of mm "pre @ s # post" "{}" acc]
      survey_loop_first_submissions [of mm "pre @ post" "{}" acc]
      first_submissions_later [OF a, of post] by simp
  then show "to_pandas_series e (metadata\<lparr>survey_answers := pre @ s # post\<rparr>) mm =
      to_pandas_series e (metadata\<lparr>survey_answers := pre @ post\<rparr>) mm"
    by (simp add: to_pandas_series_def cong: sum.case_cong option.case_cong)
next
  fix r assume "to_pandas_series e metadata mm = Inr r"
  then show "r = (sample_barcode metadata,
           [(''HOST_SUBJECT_ID'', host_subject_id metadata),
            (''COLLECTION_TIMESTAMP'', datetime_collected metadata)] @
           concat (map (emitted_by_submission mm) (first_submissions (survey_answers metadata))) @
           invariant_fields e metadata)"
    by (rule to_pandas_series_Inr)
next
  assume "flattener_precondition e mm
      (metadata\<lparr>survey_answers := first_submissions (survey_answers metadata)\<rparr>) \<and>
    list_all (\<lambda>s. list_all (free_text_ok mm (template s)) (response s))
      (first_submissions (survey_answers metadata))"
  then show "\<exists>r. to_pandas_series e metadata mm = Inr r"
    using to_pandas_series_returns by blast
qed

theorem to_pandas_series_first_seen_witness:
  "to_pandas_series ex_env ex_md6 ex_map =
     Inr (''000006'', [(''HOST_SUBJECT_ID'', Some ''subject''), (''COLLECTION_TIMESTAMP'', None),
                      (''ALCOHOL_TYPES_Red_wine'', Some ''true''),
                      (''ZIP_CODE'', Some ''92093''),
                      (''BODY_SITE'', Some ''UBERON:feces'')])"
proof -
  let ?second = "\<lparr>template = 2, response = [(''7'', ''ZIP_CODE'', Text ''92093'')]\<rparr>"
  have f: "first_submissions (survey_answers ex_md6) = [ex_first, ?second]"
    by (simp add: ex_md6_def ex_sample_def ex_first_def ex_later_def)
  have p: "flattener_precondition ex_env ex_map
      (ex_md6\<lparr>survey_answers := first_submissions (survey_answers ex_md6)\<rparr>)"
    unfolding f
    by (simp add: flattener_precondition_def answer_ok_def ex_map_eq ex_md6_def ex_sample_def
        ex_first_def ex_env_def)
  have t: "list_all (\<lambda>s. list_all (free_text_ok ex_map (template s)) (response s))
      (first_submissions (survey_answers ex_md6))"
    unfolding f by (simp add: free_text_ok_def ex_map_eq ex_first_def)
  from to_pandas_series_first_seen [of ex_env ex_md6 ex_map] p t
  obtain r where r: "to_pandas_series ex_env ex_md6 ex_map = Inr r" by blast
  with to_pandas_series_first_seen [of ex_env ex_md6 ex_map]
  have "r = (sample_barcode ex_md6,
           [(''HOST_SUBJECT_ID'', host_subject_id ex_md6),
            (''COLLECTION_TIMESTAMP'', datetime_collected ex_md6)] @
           concat (map (emitted_by_submission ex_map) (first_submissions (survey_answers ex_md6))) @
           invariant_fields ex_env ex_md6)" by blast
  then have "r = (''000006'', [(''HOST_SUBJECT_ID'', Some ''subject''), (''COLLECTION_TIMESTAMP'', None),
                      (''ALCOHOL_TYPES_Red_wine'', Some ''true''),
                      (''ZIP_CODE'', Some ''92093''),
                      (''BODY_SITE'', Some ''UBERON:feces'')])"
    unfolding f
    by (simp add: emitted_by_submission_def emitted_by_answer_def invariant_fields_def ex_map_eq
        ex_md6_def ex_sample_def ex_first_def ex_env_def py_strip_def)
  with r show ?thesis by simp
qed

subsection \<open>The fetch over the de-duplicated batch\<close>

lemma length_fetched_and_errors:
  "length (fetched_samples e bs) + length (fetch_errors e bs) = length bs"
  unfolding fetched_samples_def fetch_errors_def by (induction bs) auto

lemma to_pandas_dataframe_ex_md1:
  "to_pandas_dataframe ex_env [ex_md1] [(1, ex_template1)] = Inr ex_table1"
proof -
  have m: "construct_multiselect_map [(1, ex_template1)] = ex_map" by (simp add: ex_map_def)
  have s: "series_loop ex_env [ex_md1] ex_map =
     Inr [(''000001'', [(''HOST_SUBJECT_ID'', Some ''subject''), (''COLLECTION_TIMESTAMP'', None),
                        (''DIET_TYPE'', Some ''Omnivore''), (''ALCOHOL_TYPES_Red_wine'', Some ''true''),
                        (''BODY_SITE'', Some ''UBERON:feces'')])]"
    by (simp add: ex_map_eq to_pandas_series_def ex_md1_def ex_sample_def ex_env_def py_strip_def)
  show ?thesis
    unfolding to_pandas_dataframe_def m Let_def s
    by (simp add: ex_map_eq pd_DataFrame_def first_seen_def all_multiselect_columns_def ex_env_def
        fill_null_column_def set_column_def fillna_def replace_value_def ex_table1_def)
qed

text \<open>
  C7: for a batch without repeated identifier \<open>_find_duplicates\<close> gives no error entry;
  for a batch with a repeat it gives one entry whose barcode list holds exactly the
  identifiers of multiplicity greater than 1. Either way the fetch runs over the set of
  the identifiers: the order of the requests holds every identifier of the batch exactly
  once, every identifier gives either a fetched sample or one fetch error entry, and the
  result of \<open>retrieve_metadata\<close> is built from exactly these samples and entries, with the
  duplicates entry in front of the report. The check removes and blocks nothing.
\<close>

theorem find_duplicates_spec:
  assumes "env_ok e"
  shows "(distinct bs \<longrightarrow> snd (find_duplicates e bs) = None) \<and>
         (\<not> distinct bs \<longrightarrow>
            (\<exists>ds. snd (find_duplicates e bs) =
                    Some (BarcodesError ds ''Duplicated barcodes in input'') \<and>
                  set ds = {b. count_list bs b > 1})) \<and>
         distinct (str_set_order e bs) \<and> set (str_set_order e bs) = set bs \<and>
         length (fetched_samples e (str_set_order e bs)) +
           length (fetch_errors e (str_set_order e bs)) = card (set bs) \<and>
         retrieve_metadata e bs =
           (if fetched_samples e (str_set_order e bs) = []
            then Inr (empty_frame,
                      duplicates_report e bs @ fetch_errors e (str_set_order e bs) @
                      [ErrorOnly ''No metadata was obtained''])
            else
              (case fetch_observed_survey_templates e (fetched_samples e (str_set_order e bs)) of
                 (survey_templates, Some st_errors) \<Rightarrow>
                   Inr (empty_frame,
                        duplicates_report e bs @ fetch_errors e (str_set_order e bs) @
                        [TemplateErrors st_errors])
               | (survey_templates, None) \<Rightarrow>
                   (case to_pandas_dataframe e (fetched_samples e (str_set_order e bs))
                           survey_templates of
                      Inl err \<Rightarrow> Inl err
                    | Inr df \<Rightarrow>
                        Inr (df, duplicates_report e bs @ fetch_errors e (str_set_order e bs)))))"
proof -
  have a: "distinct bs \<longrightarrow> snd (find_duplicates e bs) = None"
  proof
    assume "distinct bs"
    then have "{b. count_list bs b > 1} = {}" by (auto simp: distinct_count_list not_less)
    with find_duplicates_set [OF assms, of bs] have "fst (find_duplicates e bs) = []" by simp
    then show "snd (find_duplicates e bs) = None" by (simp add: find_duplicates_error)
  qed
  have b: "\<not> distinct bs \<longrightarrow>
            (\<exists>ds. snd (find_duplicates e bs) =
                    Some (BarcodesError ds ''Duplicated barcodes in input'') \<and>
                  set ds = {b. count_list bs b > 1})"
  proof
    assume "\<not> distinct bs"
    then obtain b where "count_list bs b > 1" by (auto simp: distinct_count_list not_le)
    with find_duplicates_set [OF assms, of bs] have "fst (find_duplicates e bs) \<noteq> []" by auto
    then have "snd (find_duplicates e bs) =
        Some (BarcodesError (fst (find_duplicates e bs)) ''Duplicated barcodes in input'')"
      by (simp add: find_duplicates_error)
    with find_duplicates_set [OF assms, of bs]
    show "\<exists>ds. snd (find_duplicates e bs) =
                    Some (BarcodesError ds ''Duplicated barcodes in input'') \<and>
                  set ds = {b. count_list bs b > 1}" by blast
  qed
  have d: "distinct (str_set_order e bs)" and s: "set (str_set_order e bs) = set bs"
    using assms by simp_all
  have "length (str_set_order e bs) = card (set bs)"
    using distinct_card [OF d] s by simp
  then have l: "length (fetched_samples e (str_set_order e bs)) +
           length (fetch_errors e (str_set_order e bs)) = card (set bs)"
    by (simp only: length_fetched_and_errors)
  from a b d s l retrieve_metadata_unfold [of e bs] show ?thesis by blast
qed

theorem find_duplicates_spec_witness:
  "env_ok ex_env \<and>
   snd (find_duplicates ex_env [''000001'', ''000002'']) = None \<and>
   retrieve_metadata ex_env [''000001'', ''000009'', ''000001''] =
     Inr (ex_table1,
          [BarcodesError [''000001''] ''Duplicated barcodes in input'',
           BarcodeError ''000009'' ''404 from api''])"
proof -
  let ?bs = "[''000001'', ''000009'', ''000001'']"
  have d1: "distinct [''000001'', ''000002'']" by simp
  from find_duplicates_spec [OF env_ok_ex_env, of "[''000001'', ''000002'']"] d1
  have a: "snd (find_duplicates ex_env [''000001'', ''000002'']) = None" by blast
  have o: "str_set_order ex_env ?bs = [''000009'', ''000001'']" by (simp add: ex_env_def)
  have f: "fetched_samples ex_env [''000009'', ''000001''] = [ex_md1]"
    by (simp add: fetched_samples_def ex_env_def)
  have t: "str_int 404 = ''404''" by (simp add: str_int_def digit_char_def)
  have fe: "fetch_errors ex_env [''000009'', ''000001''] = [BarcodeError ''000009'' ''404 from api'']"
    by (simp add: fetch_errors_def ex_env_def t)
  have r: "duplicates_report ex_env ?bs = [BarcodesError [''000001''] ''Duplicated barcodes in input'']"
    by (simp add: duplicates_report_def find_duplicates_def Counter_def ex_env_def Let_def)
  have tl: "templates_loop ex_env [ex_md1] [] = [(1, ''acct'', ''src'')]"
    by (simp add: ex_env_def ex_md1_def ex_sample_def TEMPLATES_TO_IGNORE_def)
  have ap: "api_survey_template ex_env ''acct'' ''src'' 1 = (200, ex_template1)"
    by (simp add: ex_env_def)
  have sl: "surveys_loop ex_env [(1, ''acct'', ''src'')] [] [] = ([(1, ex_template1)], [])"
    by (simp add: surveys_loop_step ap del: surveys_loop.simps(2))
  have fo: "fetch_observed_survey_templates ex_env [ex_md1] = ([(1, ex_template1)], None)"
    unfolding fetch_observed_unfold tl sl by simp
  from find_duplicates_spec [OF env_ok_ex_env, of ?bs]
  have "retrieve_metadata ex_env ?bs =
           (if fetched_samples ex_env (str_set_order ex_env ?bs) = []
            then Inr (empty_frame,
                      duplicates_report ex_env ?bs @ fetch_errors ex_env (str_set_order ex_env ?bs) @
                      [ErrorOnly ''No metadata was obtained''])
            else
              (case fetch_observed_survey_templates ex_env (fetched_samples ex_env (str_set_order ex_env ?bs)) of
                 (survey_templates, Some st_errors) \<Rightarrow>
                   Inr (empty_frame,
                        duplicates_report ex_env ?bs @ fetch_errors ex_env (str_set_order ex_env ?bs) @
                        [TemplateErrors st_errors])
               | (survey_templates, None) \<Rightarrow>
                   (case to_pandas_dataframe ex_env (fetched_samples ex_env (str_set_order ex_env ?bs))
                           survey_templates of
                      Inl err \<Rightarrow> Inl err
                    | Inr df \<Rightarrow>
                        Inr (df, duplicates_report ex_env ?bs @ fetch_errors ex_env (str_set_order ex_env ?bs)))))"
    by blast
  then have "retrieve_metadata ex_env ?bs =
     Inr (ex_table1,
          [BarcodesError [''000001''] ''Duplicated barcodes in input'',
           BarcodeError ''000009'' ''404 from api''])"
    unfolding o f fe r fo by (simp add: to_pandas_dataframe_ex_md1)
  with a env_ok_ex_env show ?thesis by blast
qed

end
